theory Spec2Isabelle
  imports Complex_Main
begin

section \<open>Data model of the graph visualisation components\<close>

text \<open>
  The components \<^verbatim>\<open>BrainViz\<close> (2D SVG, d3), \<^verbatim>\<open>NeuralGraph3D\<close> (3D,
  react-force-graph-3d), \<^verbatim>\<open>NeuralGraph\<close> (2D canvas, react-force-graph-2d) and
  \<^verbatim>\<open>NeoGraph\<close> (cytoscape) all receive the same props: a list of \<^verbatim>\<open>GraphNode\<close> and a
  list of \<^verbatim>\<open>GraphEdge\<close> (\<^verbatim>\<open>api/client.ts\<close>).

  A JavaScript \<^verbatim>\<open>number\<close> is modelled by a real (finite values, no rounding); a
  JavaScript string by a \<^typ>\<open>string\<close>, one \<^typ>\<open>char\<close> per code unit. The interface
  declares every field of a node as present, but the components read them through
  \<^verbatim>\<open>?.\<close> and \<^verbatim>\<open>??\<close>, so every field except the id is an option here
  (\<^term>\<open>None\<close> is \<^verbatim>\<open>undefined\<close>).
\<close>

record GraphNode =
  node_id :: string
  content :: "string option"
  energy :: "real option"
  depth :: "real option"
  accessCount :: "real option"
  position :: "real list option"

record GraphEdge =
  source :: string
  target :: string
  weight :: real
  coFireCount :: real

text \<open>The operator \<^verbatim>\<open>a ?? b\<close>.\<close>

fun nullish :: "'a option \<Rightarrow> 'a \<Rightarrow> 'a" where
  "nullish None b = b"
| "nullish (Some a) b = a"

text \<open>\<^verbatim>\<open>n.position?.[i]\<close>: undefined when the array is missing or too short.\<close>

definition position_at :: "GraphNode \<Rightarrow> nat \<Rightarrow> real option" where
  "position_at n i =
     (case position n of
        None \<Rightarrow> None
      | Some ps \<Rightarrow> if i < length ps then Some (ps ! i) else None)"

section \<open>Labels\<close>

text \<open>
  \<^verbatim>\<open>BrainViz\<close>: \<^verbatim>\<open>.text(d => d.content?.slice(0, 20) + '...')\<close>. String concatenation
  turns an undefined left operand into the text \<^verbatim>\<open>undefined\<close>.
\<close>

definition BrainViz_label :: "GraphNode \<Rightarrow> string" where
  "BrainViz_label d =
     (case content d of None \<Rightarrow> ''undefined'' | Some c \<Rightarrow> take 20 c) @ ''...''"


section \<open>The 3D variant: graph data\<close>

text \<open>
  \<^verbatim>\<open>fx: n.position?.[0] ? n.position[0] * 100 : undefined\<close>, and the same for
  \<^verbatim>\<open>fy\<close>, \<^verbatim>\<open>fz\<close> with indices 1 and 2. The test is truthiness: an undefined
  coordinate and the number 0 both take the \<^verbatim>\<open>undefined\<close> branch.
\<close>

definition fixed_coord :: "GraphNode \<Rightarrow> nat \<Rightarrow> real option" where
  "fixed_coord n i =
     (case position_at n i of
        None \<Rightarrow> None
      | Some v \<Rightarrow> if v = 0 then None else Some (v * 100))"

record ForceGraphNode3D =
  datum3 :: GraphNode
  fx3 :: "real option"
  fy3 :: "real option"
  fz3 :: "real option"

definition graphData_node :: "GraphNode \<Rightarrow> ForceGraphNode3D" where
  "graphData_node n =
     \<lparr>datum3 = n, fx3 = fixed_coord n 0, fy3 = fixed_coord n 1, fz3 = fixed_coord n 2\<rparr>"

definition graphData_nodes :: "GraphNode list \<Rightarrow> ForceGraphNode3D list" where
  "graphData_nodes nodes = map graphData_node nodes"


section \<open>The 2D SVG variant: the main effect of \<^verbatim>\<open>BrainViz\<close>\<close>

record dimensions =
  width :: real
  height :: real

text \<open>
  \<^verbatim>\<open>SimNode\<close> spreads the fields of the node (\<^verbatim>\<open>...n\<close>, here the field
  \<open>datum\<close>) and adds the simulation fields \<^verbatim>\<open>x\<close>, \<^verbatim>\<open>y\<close>, \<^verbatim>\<open>vx\<close>, \<^verbatim>\<open>vy\<close>,
  \<^verbatim>\<open>fx\<close>, \<^verbatim>\<open>fy\<close>. The effect sets \<^verbatim>\<open>x\<close> and \<^verbatim>\<open>y\<close> only.
\<close>

record SimNode =
  datum :: GraphNode
  sim_x :: real
  sim_y :: real
  sim_vx :: "real option"
  sim_vy :: "real option"
  sim_fx :: "real option"
  sim_fy :: "real option"

definition simNode :: "dimensions \<Rightarrow> GraphNode \<Rightarrow> SimNode" where
  "simNode dims n =
     \<lparr>datum = n,
      sim_x = width dims / 2 + nullish (position_at n 0) 0 * 200,
      sim_y = height dims / 2 + nullish (position_at n 1) 0 * 200,
      sim_vx = None, sim_vy = None, sim_fx = None, sim_fy = None\<rparr>"

definition simNodes :: "dimensions \<Rightarrow> GraphNode list \<Rightarrow> SimNode list" where
  "simNodes dims nodes = map (simNode dims) nodes"

text \<open>
  \<^verbatim>\<open>d3.forceSimulation(simNodes)\<close> initialises the node objects it is given: a node
  with a fixed coordinate is put there, and a node whose velocity is not a number on
  both axes gets the velocity (0, 0). (A position that is not a number would be
  replaced as well; the positions here are numbers.)
\<close>

definition initializeNode :: "SimNode \<Rightarrow> SimNode" where
  "initializeNode d =
     d\<lparr>sim_x := nullish (sim_fx d) (sim_x d),
       sim_y := nullish (sim_fy d) (sim_y d),
       sim_vx := (if sim_vx d = None \<or> sim_vy d = None then Some 0 else sim_vx d),
       sim_vy := (if sim_vx d = None \<or> sim_vy d = None then Some 0 else sim_vy d)\<rparr>"

definition initializeNodes :: "SimNode list \<Rightarrow> SimNode list" where
  "initializeNodes ns = map initializeNode ns"

text \<open>
  \<^verbatim>\<open>simLinks\<close> copies the four fields of every edge; nothing is filtered out. (The
  link keeps the ids of its endpoints as the effect writes them.)
\<close>

definition simLinks :: "GraphEdge list \<Rightarrow> GraphEdge list" where
  "simLinks edges =
     map (\<lambda>e. \<lparr>source = source e, target = target e, weight = weight e,
               coFireCount = coFireCount e\<rparr>) edges"

text \<open>
  The \<^verbatim>\<open>line\<close> elements: \<^verbatim>\<open>.data(simLinks).join('line')\<close> makes one line per
  link, with the gradient of the same index as stroke.
\<close>

record line_attrs =
  stroke_gradient :: nat
  stroke_width :: real
  stroke_opacity :: real

definition link_line :: "nat \<times> GraphEdge \<Rightarrow> line_attrs" where
  "link_line il = (case il of (i, d) \<Rightarrow>
     \<lparr>stroke_gradient = i,
      stroke_width = 1 + weight d * 4,
      stroke_opacity = 0.3 + weight d * 0.5\<rparr>)"

definition link_lines :: "GraphEdge list \<Rightarrow> line_attrs list" where
  "link_lines links = map link_line (enumerate 0 links)"

text \<open>
  Particles. \<^verbatim>\<open>Math.min(Math.ceil(linkData.coFireCount / 2), 5)\<close>, then the loop
  \<^verbatim>\<open>for (let p = 0; p < numParticles; p++)\<close> appends one circle and sets one timeout
  \<^verbatim>\<open>setTimeout(animateParticle, 1000 + p * 200)\<close> per particle.
\<close>

definition numParticles :: "GraphEdge \<Rightarrow> int" where
  "numParticles linkData = min \<lceil>coFireCount linkData / 2\<rceil> 5"

record particle =
  linkIndex :: nat
  particle_no :: nat
  offset :: real

definition link_particles :: "nat \<times> GraphEdge \<Rightarrow> particle list" where
  "link_particles il = (case il of (i, linkData) \<Rightarrow>
     map (\<lambda>p. \<lparr>linkIndex = i, particle_no = p,
                offset = real p / real_of_int (numParticles linkData)\<rparr>)
       [0 ..< nat (numParticles linkData)])"

definition particles :: "GraphEdge list \<Rightarrow> particle list" where
  "particles links = concat (map link_particles (enumerate 0 links))"

text \<open>
  Timers. A pending \<^verbatim>\<open>setTimeout\<close> is its delay in milliseconds and its callback:
  \<^verbatim>\<open>animateParticle\<close> of particle \<open>p\<close> of link \<open>i\<close>, or the initial zoom to fit
  (1500 ms, set at the end of the effect).
\<close>

datatype callback = AnimateParticle nat nat | ZoomToFit

definition link_timers :: "nat \<times> GraphEdge \<Rightarrow> (nat \<times> callback) list" where
  "link_timers il = (case il of (i, linkData) \<Rightarrow>
     map (\<lambda>p. (1000 + p * 200, AnimateParticle i p)) [0 ..< nat (numParticles linkData)])"

definition effect_timers :: "GraphEdge list \<Rightarrow> (nat \<times> callback) list" where
  "effect_timers links = concat (map link_timers (enumerate 0 links)) @ [(1500, ZoomToFit)]"

text \<open>
  The state the effect works on: the simulation (its nodes, its links, whether its
  internal timer runs, its alpha target), the children of the \<^verbatim>\<open>svg\<close> element and the
  timeouts of the page that have been set and have not fired yet. No time passes in
  the model: a timeout leaves the list only if the code clears it.
\<close>

record viz =
  sim_nodes :: "SimNode list"
  sim_links :: "GraphEdge list"
  sim_running :: bool
  sim_alphaTarget :: real
  svg_lines :: "line_attrs list"
  svg_particles :: "particle list"
  svg_labels :: "string list"
  pending :: "(nat \<times> callback) list"

definition viz_init :: viz where
  "viz_init =
     \<lparr>sim_nodes = [], sim_links = [], sim_running = False, sim_alphaTarget = 0,
      svg_lines = [], svg_particles = [], svg_labels = [], pending = []\<rparr>"

text \<open>
  The link force \<^verbatim>\<open>d3.forceLink(simLinks).id(d => d.id)\<close> belongs to the d3 library:
  when it is installed on the simulation it resolves the endpoint ids of the links
  against the nodes, and it may raise. It is a parameter of the effect: a predicate on
  the nodes of the simulation and the links, true when the library returns normally.
  Its instance for d3 is \<open>forceLink_strict\<close> below.
\<close>

type_synonym link_force = "SimNode list \<Rightarrow> GraphEdge list \<Rightarrow> bool"

datatype effect_error = LinkForceError

text \<open>
  The effect body. With no nodes the component renders its empty state instead of the
  \<^verbatim>\<open>svg\<close> (so nothing is drawn and \<^verbatim>\<open>svgRef.current\<close> is null) and the effect
  returns at once, leaving the simulation reference and the timeouts as they are.
  Otherwise it removes every child of the \<^verbatim>\<open>svg\<close>, builds \<^verbatim>\<open>simNodes\<close> and
  \<^verbatim>\<open>simLinks\<close> from the props and starts a new simulation on them, which
  initialises the nodes; an exception of the link force ends the effect there. Then it draws lines, particles and labels; its
  timeouts are added to the pending ones.
\<close>

definition main_effect ::
  "link_force \<Rightarrow> dimensions \<Rightarrow> GraphNode list \<Rightarrow> GraphEdge list \<Rightarrow> viz \<Rightarrow> effect_error + viz" where
  "main_effect forceLink dims nodes edges st =
     (if nodes = [] then Inr (st\<lparr>svg_lines := [], svg_particles := [], svg_labels := []\<rparr>)
      else if \<not> forceLink (initializeNodes (simNodes dims nodes)) (simLinks edges)
        then Inl LinkForceError
      else Inr
        \<lparr>sim_nodes = initializeNodes (simNodes dims nodes),
         sim_links = simLinks edges,
         sim_running = True,
         sim_alphaTarget = 0,
         svg_lines = link_lines (simLinks edges),
         svg_particles = particles (simLinks edges),
         svg_labels = map (\<lambda>d. BrainViz_label (datum d)) (simNodes dims nodes),
         pending = pending st @ effect_timers (simLinks edges)\<rparr>)"

text \<open>
  The cleanup the effect returns: \<^verbatim>\<open>simulation.stop()\<close> and nothing else. It runs
  before the next run of the effect and when the component is unmounted.
\<close>

definition effect_cleanup :: "viz \<Rightarrow> viz" where
  "effect_cleanup st = st\<lparr>sim_running := False\<rparr>"

text \<open>
  A snapshot arrives as new arrays in the props \<^verbatim>\<open>nodes\<close> and \<^verbatim>\<open>edges\<close>, which are
  dependencies of the effect and are compared by identity: the cleanup of the previous
  run is called, then the effect body, also when the new arrays hold what the old ones
  held. Polling supplies one snapshot after the other.
\<close>

definition apply_snapshot ::
  "link_force \<Rightarrow> dimensions \<Rightarrow> GraphNode list \<Rightarrow> GraphEdge list \<Rightarrow> viz \<Rightarrow> effect_error + viz" where
  "apply_snapshot forceLink dims nodes edges st =
     main_effect forceLink dims nodes edges (effect_cleanup st)"

fun run_snapshots ::
  "link_force \<Rightarrow> dimensions \<Rightarrow> (GraphNode list \<times> GraphEdge list) list \<Rightarrow> viz
     \<Rightarrow> effect_error + viz" where
  "run_snapshots forceLink dims [] st = Inr st"
| "run_snapshots forceLink dims ((nodes, edges) # rest) st =
     (case apply_snapshot forceLink dims nodes edges st of
        Inl err \<Rightarrow> Inl err
      | Inr st' \<Rightarrow> run_snapshots forceLink dims rest st')"




definition motion_state ::
  "SimNode \<Rightarrow> string \<times> (real \<times> real) \<times> (real option \<times> real option) \<times> (real option \<times> real option)" where
  "motion_state d =
     (node_id (datum d), (sim_x d, sim_y d), (sim_vx d, sim_vy d), (sim_fx d, sim_fy d))"

definition motion_states ::
  "viz \<Rightarrow> (string \<times> (real \<times> real) \<times> (real option \<times> real option) \<times> (real option \<times> real option)) list" where
  "motion_states st = map motion_state (sim_nodes st)"


definition after_teardown :: "effect_error + viz \<Rightarrow> effect_error + (nat \<times> callback) list" where
  "after_teardown r = map_sum (\<lambda>err. err) (\<lambda>st. pending (effect_cleanup st)) r"

section \<open>Drag handlers of the SVG variant\<close>







section \<open>Selection\<close>

datatype pointer = ClickNode string | ClickCanvas | ClickClose

text \<open>
  \<^verbatim>\<open>BrainViz\<close> keeps the id of the selected node or null. The click handler of a node
  circle is \<^verbatim>\<open>setSelectedNode(prev => prev === d.id ? null : d.id)\<close>; the close button
  of the panel calls \<^verbatim>\<open>setSelectedNode(null)\<close>; no click handler is attached to the
  \<^verbatim>\<open>svg\<close> itself, so a click on the empty canvas changes nothing.
\<close>

fun BrainViz_click :: "pointer \<Rightarrow> string option \<Rightarrow> string option" where
  "BrainViz_click (ClickNode i) prev = (if prev = Some i then None else Some i)"
| "BrainViz_click ClickCanvas prev = prev"
| "BrainViz_click ClickClose prev = None"

text \<open>
  The second effect of \<^verbatim>\<open>BrainViz\<close> restyles the node circles whenever the selection
  changes: stroke and stroke width are \<^verbatim>\<open>#22c55e\<close> and 4 for the circle whose datum
  has the selected id, \<^verbatim>\<open>#fff\<close> and 2 for the others.
\<close>

definition selected_stroke :: "string option \<Rightarrow> GraphNode \<Rightarrow> string \<times> real" where
  "selected_stroke selectedNode d =
     (if Some (node_id d) = selectedNode then (''#22c55e'', 4) else (''#fff'', 2))"

text \<open>
  \<^verbatim>\<open>NeuralGraph3D\<close>: \<^verbatim>\<open>handleNodeClick\<close> toggles in the same way and switches the
  auto-rotation off; the graph is given no background click handler. The state is the
  selected id and the auto-rotate flag.
\<close>

fun NeuralGraph3D_click :: "pointer \<Rightarrow> string option \<times> bool \<Rightarrow> string option \<times> bool" where
  "NeuralGraph3D_click (ClickNode i) (prev, autoRotate) =
     (if prev = Some i then None else Some i, False)"
| "NeuralGraph3D_click ClickCanvas (prev, autoRotate) = (prev, autoRotate)"
| "NeuralGraph3D_click ClickClose (prev, autoRotate) = (None, autoRotate)"

text \<open>
  \<^verbatim>\<open>NeoGraph\<close> keeps the selected node itself or null. A tap on a node looks the node
  up by id in the props and, when found, selects it; a tap whose target is the core
  (the background) selects nothing.
\<close>

fun NeoGraph_tap :: "GraphNode list \<Rightarrow> pointer \<Rightarrow> GraphNode option \<Rightarrow> GraphNode option" where
  "NeoGraph_tap nodes (ClickNode i) prev =
     (case find (\<lambda>n. node_id n = i) nodes of
        Some nodeData \<Rightarrow> Some nodeData
      | None \<Rightarrow> prev)"
| "NeoGraph_tap nodes ClickCanvas prev = None"
| "NeoGraph_tap nodes ClickClose prev = None"

section \<open>Colours and link styles\<close>

text \<open>
  A CSS colour is the text the code builds: a hexadecimal literal, \<^verbatim>\<open>rgb(r, g, b)\<close> or
  \<^verbatim>\<open>rgba(r, g, b, a)\<close>.
\<close>

datatype css_color = Hex string | Rgb int int int | Rgba int int int real

text \<open>
  \<^verbatim>\<open>BrainViz\<close>: \<^verbatim>\<open>d3.interpolateRgb('#22c55e', '#ef4444')(1 - energy)\<close>. The
  interpolator belongs to the d3 library and is a parameter here. The fill of a node
  circle is \<^verbatim>\<open>energyColor(d.energy ?? 0.5)\<close>.
\<close>

definition energyColor :: "(string \<Rightarrow> string \<Rightarrow> real \<Rightarrow> css_color) \<Rightarrow> real \<Rightarrow> css_color" where
  "energyColor interpolateRgb e = interpolateRgb ''#22c55e'' ''#ef4444'' (1 - e)"

definition BrainViz_fill :: "(string \<Rightarrow> string \<Rightarrow> real \<Rightarrow> css_color) \<Rightarrow> GraphNode \<Rightarrow> css_color" where
  "BrainViz_fill interpolateRgb d = energyColor interpolateRgb (nullish (energy d) 0.5)"

text \<open>
  \<^verbatim>\<open>NeuralGraph3D\<close>: \<^verbatim>\<open>getNodeColor\<close>, which reads the selection, the energy and the
  depth. The channels are floors of exact reals here; the floor of the floating-point
  value can be one less where the exact value is a whole number, so the properties
  below bound a channel to within one unit of the linear value.
\<close>

definition getNodeColor :: "string option \<Rightarrow> GraphNode \<Rightarrow> css_color" where
  "getNodeColor selectedNode node =
     (let e = nullish (energy node) 0.5;
          dp = nullish (depth node) 0
      in if selectedNode = Some (node_id node) then Hex ''#ffffff''
         else if dp = 0 then Rgb \<lfloor>50 + (1 - e) * 200\<rfloor> \<lfloor>200 + e * 55\<rfloor> 80
         else if dp = 1 then Rgb 80 150 \<lfloor>150 + e * 105\<rfloor>
         else Rgb \<lfloor>120 + e * 80\<rfloor> 80 200)"

text \<open>\<^verbatim>\<open>NeuralGraph\<close> (canvas): \<^verbatim>\<open>nodeColor\<close>.\<close>

definition nodeColor :: "GraphNode \<Rightarrow> css_color" where
  "nodeColor node =
     (let e = nullish (energy node) 0.5;
          dp = nullish (depth node) 0
      in if dp = 0 then Rgb 34 \<lfloor>150 + e * 105\<rfloor> 85
         else if dp = 1 then Rgb 59 130 \<lfloor>150 + e * 105\<rfloor>
         else Rgb \<lfloor>100 + e * 55\<rfloor> 80 200)"

text \<open>
  \<^verbatim>\<open>NeoGraph\<close>: the element stores \<^verbatim>\<open>energy: n.energy ?? 1\<close>, and the style block
  \<^verbatim>\<open>node\<close> maps it to one of four background colours. The later block
  \<^verbatim>\<open>node:selected\<close> overrides the background colour of an element that cytoscape
  holds as selected; \<open>selected\<close> is that state of the element.
\<close>

definition NeoGraph_background :: "bool \<Rightarrow> GraphNode \<Rightarrow> css_color" where
  "NeoGraph_background selected n =
     (let e = nullish (energy n) 1
      in if selected then Hex ''#3b82f6''
         else if e > 0.8 then Hex ''#22c55e''
         else if e > 0.5 then Hex ''#84cc16''
         else if e > 0.3 then Hex ''#eab308''
         else Hex ''#f97316'')"

text \<open>
  Link styles of \<^verbatim>\<open>NeuralGraph3D\<close>. The callbacks take a link whose \<^verbatim>\<open>weight\<close> and
  \<^verbatim>\<open>coFireCount\<close> are optional; the arguments here are these two fields. The graph is
  given the constant \<^verbatim>\<open>linkOpacity={0.8}\<close>, the same for every link.
\<close>

definition getLinkColor :: "real option \<Rightarrow> css_color" where
  "getLinkColor w =
     Rgba \<lfloor>100 + nullish w 0.5 * 155\<rfloor> 220 255 (0.3 + nullish w 0.5 * 0.7)"

definition getLinkWidth :: "real option \<Rightarrow> real option \<Rightarrow> real" where
  "getLinkWidth w c = 0.5 + nullish w 0.5 * 2 + min (nullish c 1) 15 * 0.1"

definition getLinkParticles :: "real option \<Rightarrow> int" where
  "getLinkParticles c = min (\<lfloor>nullish c 0 / 3\<rfloor> + 1) 5"

text \<open>Link width of \<^verbatim>\<open>NeuralGraph\<close> (canvas).\<close>

definition linkWidth :: "real option \<Rightarrow> real option \<Rightarrow> real" where
  "linkWidth w c = 1 + nullish w 0.5 * 3 + min (nullish c 0) 10 * 0.2"

text \<open>
  Edge style of \<^verbatim>\<open>NeoGraph\<close>: the block \<^verbatim>\<open>edge\<close> takes width and opacity from the
  weight stored in the element; the later block \<^verbatim>\<open>edge:selected\<close> overrides the
  width (and the colours, not the opacity) of an edge that cytoscape holds as selected.
\<close>

definition NeoGraph_edge_width :: "bool \<Rightarrow> GraphEdge \<Rightarrow> real" where
  "NeoGraph_edge_width selected e = (if selected then 4 else 1 + weight e * 4)"

definition NeoGraph_edge_opacity :: "GraphEdge \<Rightarrow> real" where
  "NeoGraph_edge_opacity e = 0.4 + weight e * 0.5"

text \<open>Link colour of \<^verbatim>\<open>NeuralGraph\<close> (canvas): the weight sets the alpha only.\<close>

definition linkColor :: "real option \<Rightarrow> css_color" where
  "linkColor w = Rgba 100 200 255 (0.3 + nullish w 0.5 * 0.7)"

text \<open>The alpha channel of a colour (1 when the text gives none).\<close>

fun alpha_of :: "css_color \<Rightarrow> real" where
  "alpha_of (Rgba r g b a) = a"
| "alpha_of (Rgb r g b) = 1"
| "alpha_of (Hex h) = 1"


section \<open>Concrete snapshots and instances\<close>

text \<open>
  The link force of d3: it looks the source and the target id of every link up among
  the ids of the nodes (the accessor is \<^verbatim>\<open>d => d.id\<close>) and raises
  \<^verbatim>\<open>node not found\<close> for an id that no node has.
\<close>

definition forceLink_strict :: link_force where
  "forceLink_strict ns ls =
     list_all (\<lambda>l. source l \<in> set (map (\<lambda>d. node_id (datum d)) ns)
                 \<and> target l \<in> set (map (\<lambda>d. node_id (datum d)) ns)) ls"

definition viewport :: dimensions where
  "viewport = \<lparr>width = 800, height = 500\<rparr>"

definition node_a :: GraphNode where
  "node_a = \<lparr>node_id = ''a'', content = Some ''alpha'', energy = Some 1, depth = Some 0,
      accessCount = Some 0, position = Some [0.5, 0.5]\<rparr>"

definition node_b :: GraphNode where
  "node_b = \<lparr>node_id = ''b'', content = Some ''beta'', energy = Some 0, depth = Some 1,
      accessCount = Some 2, position = None\<rparr>"

definition edge_ab :: GraphEdge where
  "edge_ab = \<lparr>source = ''a'', target = ''b'', weight = 1, coFireCount = 10\<rparr>"


text \<open>
  The state right after the snapshot \<open>[node_a]\<close> was applied (the node at rest at
  (500, 350)), and the effect of some simulation steps on a state: every node has moved
  by (-80, -50) and has the velocity (1.5, -2).
\<close>

definition loaded_a :: viz where
  "loaded_a =
     \<lparr>sim_nodes = [\<lparr>datum = node_a, sim_x = 500, sim_y = 350,
         sim_vx = Some 0, sim_vy = Some 0, sim_fx = None, sim_fy = None\<rparr>],
      sim_links = [], sim_running = True, sim_alphaTarget = 0,
      svg_lines = [], svg_particles = [], svg_labels = [''alpha...''],
      pending = [(1500, ZoomToFit)]\<rparr>"

definition drift :: "viz \<Rightarrow> viz" where
  "drift st = st\<lparr>sim_nodes :=
     map (\<lambda>d. d\<lparr>sim_x := sim_x d - 80, sim_y := sim_y d - 50,
                 sim_vx := Some 1.5, sim_vy := Some (- 2)\<rparr>) (sim_nodes st)\<rparr>"

text \<open>Two nodes of equal energy on different consolidation tiers.\<close>

definition node_surface :: GraphNode where
  "node_surface = \<lparr>node_id = ''s'', content = Some ''surface'', energy = Some 0.5,
      depth = Some 0, accessCount = Some 0, position = None\<rparr>"

definition node_consolidated :: GraphNode where
  "node_consolidated = \<lparr>node_id = ''c'', content = Some ''consolidated'', energy = Some 0.5,
      depth = Some 1, accessCount = Some 0, position = None\<rparr>"

text \<open>A weak edge that fired often and a stronger edge that never fired.\<close>

definition edge_weak_busy :: GraphEdge where
  "edge_weak_busy = \<lparr>source = ''a'', target = ''b'', weight = 0.1, coFireCount = 15\<rparr>"

definition edge_strong_idle :: GraphEdge where
  "edge_strong_idle = \<lparr>source = ''b'', target = ''a'', weight = 0.2, coFireCount = 0\<rparr>"


text \<open>
  An instance of the colour interpolator for the two colours of the component,
  \<^verbatim>\<open>#22c55e\<close> = (34, 197, 94) and \<^verbatim>\<open>#ef4444\<close> = (239, 68, 68): channel by channel
  linear in \<open>t\<close>, each channel rounded and clamped to 0..255 when the colour is printed.
\<close>

definition clampi :: "real \<Rightarrow> int" where
  "clampi v = max 0 (min 255 \<lfloor>v + 1 / 2\<rfloor>)"

definition linear_green_red :: "string \<Rightarrow> string \<Rightarrow> real \<Rightarrow> css_color" where
  "linear_green_red a b t =
     Rgb (clampi (34 + t * (239 - 34))) (clampi (197 + t * (68 - 197)))
         (clampi (94 + t * (68 - 94)))"

text \<open>Two nodes with a zero coordinate, on the y axis and on the x axis.\<close>

definition node_swapped :: GraphNode where
  "node_swapped = \<lparr>node_id = ''w'', content = None, energy = None, depth = None,
      accessCount = None, position = Some [1, 0, 2]\<rparr>"

definition node_origin :: GraphNode where
  "node_origin = \<lparr>node_id = ''o'', content = None, energy = None, depth = None,
      accessCount = None, position = Some [0, 1, 2]\<rparr>"

section \<open>Properties\<close>

subsection \<open>Helper facts\<close>

lemma simLinks_id: "simLinks edges = edges"
  unfolding simLinks_def by (induction edges) simp_all


lemma apply_snapshot_Inr:
  "nodes \<noteq> [] \<Longrightarrow> apply_snapshot forceLink dims nodes edges st = Inr st' \<Longrightarrow>
     st' = \<lparr>sim_nodes = initializeNodes (simNodes dims nodes), sim_links = edges,
            sim_running = True, sim_alphaTarget = 0, svg_lines = link_lines edges,
            svg_particles = particles edges,
            svg_labels = map (\<lambda>d. BrainViz_label (datum d)) (simNodes dims nodes),
            pending = pending st @ effect_timers edges\<rparr>"
  by (auto simp: apply_snapshot_def main_effect_def effect_cleanup_def simLinks_id split: if_splits)



lemma floor_within_one: "\<bar>real_of_int \<lfloor>v\<rfloor> - v\<bar> \<le> 1"
proof -
  have "real_of_int \<lfloor>v\<rfloor> \<le> v" and "v < real_of_int \<lfloor>v\<rfloor> + 1"
    by linarith+
  then show ?thesis by linarith
qed

lemma selected_id_at_most_once:
  "distinct (map node_id nodes) \<Longrightarrow> length (filter (\<lambda>d. Some (node_id d) = sel) nodes) \<le> 1"
proof (induction nodes)
  case Nil
  then show ?case by simp
next
  case (Cons n ns)
  show ?case
  proof (cases "Some (node_id n) = sel")
    case True
    have "\<forall>d \<in> set ns. Some (node_id d) \<noteq> sel"
      using Cons.prems True by (fastforce simp: image_iff)
    then have "filter (\<lambda>d. Some (node_id d) = sel) ns = []"
      by (simp only: filter_False)
    then show ?thesis using True by simp
  next
    case False
    then show ?thesis using Cons by simp
  qed
qed

lemma linkIndex_link_particles: "p \<in> set (link_particles (j, e)) \<Longrightarrow> linkIndex p = j"
  by (auto simp: link_particles_def)

lemma filter_link_particles:
  "filter (\<lambda>p. linkIndex p = i) (link_particles (j, e)) = (if i = j then link_particles (j, e) else [])"
  by (auto simp: link_particles_def filter_map comp_def)

lemma linkIndex_lower_bound:
  "p \<in> set (concat (map link_particles (enumerate k links))) \<Longrightarrow> k \<le> linkIndex p"
proof (induction links arbitrary: k)
  case Nil
  then show ?case by simp
next
  case (Cons e es)
  from Cons.prems have "p \<in> set (link_particles (k, e))
      \<or> p \<in> set (concat (map link_particles (enumerate (Suc k) es)))"
    by simp
  then show ?case
  proof
    assume "p \<in> set (link_particles (k, e))"
    then show ?thesis by (simp add: linkIndex_link_particles)
  next
    assume "p \<in> set (concat (map link_particles (enumerate (Suc k) es)))"
    then have "Suc k \<le> linkIndex p" by (rule Cons.IH)
    then show ?thesis by simp
  qed
qed

lemma particles_of_link:
  "filter (\<lambda>p. linkIndex p = k + i) (concat (map link_particles (enumerate k links)))
     = (if i < length links then link_particles (k + i, links ! i) else [])"
proof (induction links arbitrary: k i)
  case Nil
  then show ?case by simp
next
  case (Cons e es)
  show ?case
  proof (cases i)
    case 0
    have "filter (\<lambda>p. linkIndex p = k) (concat (map link_particles (enumerate (Suc k) es))) = []"
    proof -
      have "\<forall>p \<in> set (concat (map link_particles (enumerate (Suc k) es))). linkIndex p \<noteq> k"
        using linkIndex_lower_bound [of _ "Suc k" es] by fastforce
      then show ?thesis by (simp only: filter_False)
    qed
    then show ?thesis using 0 by (simp add: filter_link_particles)
  next
    case (Suc m)
    then show ?thesis using Cons.IH [of "Suc k" m] by (simp add: filter_link_particles)
  qed
qed

lemma length_link_particles: "length (link_particles (i, e)) = nat (numParticles e)"
  by (simp add: link_particles_def)

lemma particles_on_edge:
  "i < length edges \<Longrightarrow>
     length (filter (\<lambda>p. linkIndex p = i) (particles edges)) = nat (numParticles (edges ! i))"
  using particles_of_link [of 0 i edges] by (simp add: particles_def length_link_particles)









subsection \<open>Relations with a missing endpoint\<close>




subsection \<open>Positions across snapshots\<close>

text \<open>
  C2, as the code has it. Applying a snapshot rebuilds every simulation node from the
  snapshot alone: each entity of the snapshot, retained or new, is placed at
  (width / 2 + 200 * hx, height / 2 + 200 * hy) for the hint (hx, hy), a missing hint
  coordinate counting as 0, with velocity (0, 0) and not pinned. The position, the
  velocity and the pin it had before the snapshot do not enter the result.
\<close>

theorem C2_snapshot_rebuilds_every_node:
  "nodes \<noteq> [] \<Longrightarrow> forceLink (initializeNodes (simNodes dims nodes)) (simLinks edges) \<Longrightarrow>
     map_sum id motion_states (apply_snapshot forceLink dims nodes edges st)
       = Inr (map (\<lambda>n. (node_id n,
                        (width dims / 2 + nullish (position_at n 0) 0 * 200,
                         height dims / 2 + nullish (position_at n 1) 0 * 200),
                        (Some 0, Some 0), (None, None))) nodes)"
  by (simp add: apply_snapshot_def main_effect_def motion_states_def motion_state_def
      initializeNodes_def initializeNode_def simNodes_def simNode_def comp_def)

theorem C2_snapshot_rebuilds_witness:
  "[node_a] \<noteq> []
   \<and> forceLink_strict (initializeNodes (simNodes viewport [node_a])) (simLinks [])
   \<and> motion_states (drift loaded_a) = [(''a'', (420, 300), (Some 1.5, Some (- 2)), (None, None))]
   \<and> map_sum id motion_states (apply_snapshot forceLink_strict viewport [node_a] [] (drift loaded_a))
       = Inr [(''a'', (500, 350), (Some 0, Some 0), (None, None))]"
  using C2_snapshot_rebuilds_every_node [of "[node_a]" forceLink_strict viewport "[]" "drift loaded_a"]
  by (simp add: forceLink_strict_def simLinks_def node_a_def position_at_def viewport_def
      motion_states_def motion_state_def drift_def loaded_a_def)

text \<open>
  C2 as stated fails. The snapshot \<open>[node_a]\<close> puts the node at (500, 350) at rest;
  after the simulation has moved it to (420, 300) with velocity (1.5, -2), supplying the
  same snapshot again puts it back at (500, 350) at rest.
\<close>

theorem C2_resupplied_snapshot_counterexample:
  "apply_snapshot forceLink_strict viewport [node_a] [] viz_init = Inr loaded_a
   \<and> motion_states loaded_a = [(''a'', (500, 350), (Some 0, Some 0), (None, None))]
   \<and> motion_states (drift loaded_a) = [(''a'', (420, 300), (Some 1.5, Some (- 2)), (None, None))]
   \<and> map_sum id motion_states (apply_snapshot forceLink_strict viewport [node_a] [] (drift loaded_a))
       = Inr [(''a'', (500, 350), (Some 0, Some 0), (None, None))]"
  by (simp add: apply_snapshot_def main_effect_def effect_cleanup_def forceLink_strict_def
      simNodes_def simNode_def initializeNodes_def initializeNode_def simLinks_def link_lines_def
      particles_def effect_timers_def BrainViz_label_def motion_states_def motion_state_def
      loaded_a_def drift_def node_a_def position_at_def viewport_def viz_init_def)

subsection \<open>Particles per edge\<close>

text \<open>
  C3, as the code has it. In the SVG variant the number of particles scheduled on an
  edge is min(ceil(coFireCount / 2), 5) (none when that is negative), so an edge with
  coFireCount = 10 gets exactly 5 particles. In the 3D variant the number is
  min(floor(coFireCount / 3) + 1, 5), which is 4 for coFireCount = 10.
\<close>

theorem C3_particles_per_edge:
  "(nodes \<noteq> [] \<and> apply_snapshot forceLink dims nodes edges st = Inr st' \<and> i < length edges \<longrightarrow>
      int (length (filter (\<lambda>p. linkIndex p = i) (svg_particles st')))
        = max 0 (min \<lceil>coFireCount (edges ! i) / 2\<rceil> 5))
   \<and> (nodes \<noteq> [] \<and> apply_snapshot forceLink dims nodes edges st = Inr st' \<and> i < length edges
        \<and> coFireCount (edges ! i) = 10 \<longrightarrow>
      length (filter (\<lambda>p. linkIndex p = i) (svg_particles st')) = 5)
   \<and> getLinkParticles (Some c) = min (\<lfloor>c / 3\<rfloor> + 1) 5
   \<and> getLinkParticles (Some 10) = 4"
proof -
  have a: "int (length (filter (\<lambda>p. linkIndex p = i) (svg_particles st')))
        = max 0 (min \<lceil>coFireCount (edges ! i) / 2\<rceil> 5)"
    if "nodes \<noteq> []" "apply_snapshot forceLink dims nodes edges st = Inr st'" "i < length edges"
  proof -
    have "svg_particles st' = particles edges"
      using apply_snapshot_Inr [OF that(1) that(2)] by simp
    then show ?thesis
      using particles_on_edge [OF that(3)] by (simp add: numParticles_def)
  qed
  have b: "length (filter (\<lambda>p. linkIndex p = i) (svg_particles st')) = 5"
    if "nodes \<noteq> []" "apply_snapshot forceLink dims nodes edges st = Inr st'" "i < length edges"
       "coFireCount (edges ! i) = 10"
    using a [OF that(1) that(2) that(3)] that(4) by simp
  have c: "getLinkParticles (Some c) = min (\<lfloor>c / 3\<rfloor> + 1) 5 \<and> getLinkParticles (Some 10) = 4"
    by (simp add: getLinkParticles_def)
  show ?thesis using a b c by blast
qed

theorem C3_particles_witness:
  "[node_a, node_b] \<noteq> []
   \<and> (\<exists>st'. apply_snapshot forceLink_strict viewport [node_a, node_b] [edge_ab] viz_init = Inr st'
        \<and> length (filter (\<lambda>p. linkIndex p = 0) (svg_particles st')) = 5)
   \<and> (0::nat) < length [edge_ab] \<and> coFireCount ([edge_ab] ! 0) = 10"
proof -
  obtain st' where st': "apply_snapshot forceLink_strict viewport [node_a, node_b] [edge_ab] viz_init = Inr st'"
    by (simp add: apply_snapshot_def main_effect_def forceLink_strict_def simNodes_def simNode_def
        initializeNodes_def initializeNode_def simLinks_def node_a_def node_b_def edge_ab_def)
  have c: "coFireCount ([edge_ab] ! 0) = 10" by (simp add: edge_ab_def)
  show ?thesis
    using C3_particles_per_edge [of "[node_a, node_b]" forceLink_strict viewport "[edge_ab]" viz_init st' 0]
      st' c by simp
qed

text \<open>
  C3 as stated fails in the 3D variant: the edge with coFireCount = 10 gets 4 particles
  there, not min(ceil(10 / 2), 5) = 5.
\<close>

theorem C3_particles_3d_counterexample:
  "coFireCount edge_ab = 10
   \<and> getLinkParticles (Some (coFireCount edge_ab)) = 4
   \<and> min \<lceil>coFireCount edge_ab / 2\<rceil> 5 = 5"
  by (simp add: getLinkParticles_def edge_ab_def)

subsection \<open>Timeouts after teardown\<close>

text \<open>
  C4, evaluated on the code. After the snapshot with the nodes a, b and one edge with
  coFireCount = 10, the cleanup of the effect leaves all six timeouts pending: the five
  \<^verbatim>\<open>animateParticle\<close> timeouts of the edge and the zoom to fit. When a second snapshot
  without the edge arrives, the particles are removed from the scene but the five
  timeouts of the removed edge are still pending.
\<close>

theorem C4_timeouts_survive_teardown:
  "after_teardown (run_snapshots forceLink_strict viewport [([node_a, node_b], [edge_ab])] viz_init)
     = Inr [(1000, AnimateParticle 0 0), (1200, AnimateParticle 0 1), (1400, AnimateParticle 0 2),
            (1600, AnimateParticle 0 3), (1800, AnimateParticle 0 4), (1500, ZoomToFit)]
   \<and> map_sum id svg_particles
       (run_snapshots forceLink_strict viewport
          [([node_a, node_b], [edge_ab]), ([node_a, node_b], [])] viz_init) = Inr []
   \<and> map_sum id pending
       (run_snapshots forceLink_strict viewport
          [([node_a, node_b], [edge_ab]), ([node_a, node_b], [])] viz_init)
     = Inr [(1000, AnimateParticle 0 0), (1200, AnimateParticle 0 1), (1400, AnimateParticle 0 2),
            (1600, AnimateParticle 0 3), (1800, AnimateParticle 0 4), (1500, ZoomToFit),
            (1500, ZoomToFit)]"
  by (simp add: after_teardown_def effect_cleanup_def apply_snapshot_def main_effect_def
      effect_timers_def link_timers_def forceLink_strict_def simNodes_def simNode_def
      initializeNodes_def initializeNode_def simLinks_def edge_ab_def numParticles_def node_a_def node_b_def viz_init_def particles_def
      upt_rec)

subsection \<open>Stroke width and opacity against weight\<close>

text \<open>
  C5, as the code has it. For edges e1, e2 with weight(e1) < weight(e2): in the SVG
  variant the stroke width and the opacity of e1 are at most those of e2; in the
  cytoscape variant the opacity of e1 is at most that of e2, and so is the width when
  the two edges are in the same selection state (a selected edge has the width 4,
  whatever its weight); in the 3D and canvas variants the alpha of the link colour of e1
  is at most that of e2, and the link width of e1 is at most that of e2 when
  coFireCount(e1) \<le> coFireCount(e2) (the width grows with the coFireCount as well).
\<close>

theorem C5_monotone_in_weight:
  "weight e1 < weight e2 \<Longrightarrow>
     stroke_width (link_line (i, e1)) \<le> stroke_width (link_line (j, e2))
     \<and> stroke_opacity (link_line (i, e1)) \<le> stroke_opacity (link_line (j, e2))
     \<and> NeoGraph_edge_width selected e1 \<le> NeoGraph_edge_width selected e2
     \<and> NeoGraph_edge_width True e1 = 4
     \<and> NeoGraph_edge_opacity e1 \<le> NeoGraph_edge_opacity e2
     \<and> alpha_of (getLinkColor (Some (weight e1))) \<le> alpha_of (getLinkColor (Some (weight e2)))
     \<and> alpha_of (linkColor (Some (weight e1))) \<le> alpha_of (linkColor (Some (weight e2)))
     \<and> (coFireCount e1 \<le> coFireCount e2 \<longrightarrow>
          getLinkWidth (Some (weight e1)) (Some (coFireCount e1))
            \<le> getLinkWidth (Some (weight e2)) (Some (coFireCount e2))
          \<and> linkWidth (Some (weight e1)) (Some (coFireCount e1))
            \<le> linkWidth (Some (weight e2)) (Some (coFireCount e2)))"
  by (auto simp: link_line_def NeoGraph_edge_width_def NeoGraph_edge_opacity_def getLinkColor_def
      linkColor_def getLinkWidth_def linkWidth_def min_def)

theorem C5_monotone_witness:
  "weight edge_strong_idle < weight edge_ab
   \<and> coFireCount edge_strong_idle \<le> coFireCount edge_ab
   \<and> stroke_width (link_line (0, edge_strong_idle)) \<le> stroke_width (link_line (1, edge_ab))
   \<and> stroke_opacity (link_line (0, edge_strong_idle)) \<le> stroke_opacity (link_line (1, edge_ab))
   \<and> NeoGraph_edge_width False edge_strong_idle \<le> NeoGraph_edge_width False edge_ab
   \<and> getLinkWidth (Some (weight edge_strong_idle)) (Some (coFireCount edge_strong_idle))
       \<le> getLinkWidth (Some (weight edge_ab)) (Some (coFireCount edge_ab))"
  using C5_monotone_in_weight [of edge_strong_idle edge_ab 0 1 False]
  by (simp add: edge_strong_idle_def edge_ab_def)

text \<open>
  C5 as stated fails in the 3D and canvas variants: the edge of weight 0.1 that fired 15
  times is drawn wider than the edge of weight 0.2 that never fired. It fails in the
  cytoscape variant too when the weaker edge is selected and the stronger one is not.
\<close>

theorem C5_width_counterexample:
  "weight edge_weak_busy < weight edge_strong_idle
   \<and> getLinkWidth (Some (weight edge_weak_busy)) (Some (coFireCount edge_weak_busy)) = 2.2
   \<and> getLinkWidth (Some (weight edge_strong_idle)) (Some (coFireCount edge_strong_idle)) = 0.9
   \<and> linkWidth (Some (weight edge_weak_busy)) (Some (coFireCount edge_weak_busy)) = 3.3
   \<and> linkWidth (Some (weight edge_strong_idle)) (Some (coFireCount edge_strong_idle)) = 1.6
   \<and> NeoGraph_edge_width True edge_weak_busy = 4
   \<and> NeoGraph_edge_width False edge_strong_idle = 1.8"
  by (simp add: getLinkWidth_def linkWidth_def NeoGraph_edge_width_def edge_weak_busy_def
      edge_strong_idle_def)

subsection \<open>Selection\<close>

text \<open>
  C6, as the code has it. Every variant holds at most one selected entity (for distinct
  ids, at most one circle of the SVG variant has the selected stroke and at most one
  node of the 3D variant the selected colour), and a click on an entity that is not the
  selected one selects exactly that entity. A click on the selected entity deselects it
  in the SVG and 3D variants (in the 3D variant every click on an entity also stops the
  auto-rotation); in the cytoscape variant a tap on an entity of the snapshot selects
  it, whatever the selection was. A click on the empty canvas deselects in the cytoscape
  variant and leaves the selection as it is in the SVG and 3D variants. The close button
  of the panel deselects in all three.
\<close>

theorem C6_selection_per_variant:
  "card (set_option (BrainViz_click ev prev)) \<le> 1
   \<and> card (set_option (fst (NeuralGraph3D_click ev (prev, r)))) \<le> 1
   \<and> card (set_option (NeoGraph_tap nodes ev sel)) \<le> 1
   \<and> (distinct (map node_id nodes) \<longrightarrow>
        length (filter (\<lambda>d. selected_stroke prev d = (''#22c55e'', 4)) nodes) \<le> 1
        \<and> length (filter (\<lambda>d. getNodeColor prev d = Hex ''#ffffff'') nodes) \<le> 1)
   \<and> BrainViz_click (ClickNode i) (Some i) = None
   \<and> (prev \<noteq> Some j \<longrightarrow> BrainViz_click (ClickNode j) prev = Some j)
   \<and> BrainViz_click ClickCanvas prev = prev
   \<and> BrainViz_click ClickClose prev = None
   \<and> NeuralGraph3D_click (ClickNode i) (Some i, r) = (None, False)
   \<and> (prev \<noteq> Some j \<longrightarrow> NeuralGraph3D_click (ClickNode j) (prev, r) = (Some j, False))
   \<and> NeuralGraph3D_click ClickCanvas (prev, r) = (prev, r)
   \<and> NeuralGraph3D_click ClickClose (prev, r) = (None, r)
   \<and> (find (\<lambda>n. node_id n = j) nodes = Some n \<longrightarrow> NeoGraph_tap nodes (ClickNode j) sel = Some n)
   \<and> (find (\<lambda>n. node_id n = j) nodes = None \<longrightarrow> NeoGraph_tap nodes (ClickNode j) sel = sel)
   \<and> NeoGraph_tap nodes ClickCanvas sel = None
   \<and> NeoGraph_tap nodes ClickClose sel = None"
proof -
  have one: "card (set_option (BrainViz_click ev prev)) \<le> 1"
    by (cases "BrainViz_click ev prev") simp_all
  have two: "card (set_option (fst (NeuralGraph3D_click ev (prev, r)))) \<le> 1"
    by (cases "fst (NeuralGraph3D_click ev (prev, r))") simp_all
  have three: "card (set_option (NeoGraph_tap nodes ev sel)) \<le> 1"
    by (cases "NeoGraph_tap nodes ev sel") simp_all
  have stroke: "(\<lambda>d. selected_stroke prev d = (''#22c55e'', 4)) = (\<lambda>d. Some (node_id d) = prev)"
    by (rule ext) (simp add: selected_stroke_def)
  have white: "(\<lambda>d. getNodeColor prev d = Hex ''#ffffff'') = (\<lambda>d. Some (node_id d) = prev)"
    by (rule ext) (auto simp: getNodeColor_def Let_def)
  have styled: "distinct (map node_id nodes) \<longrightarrow>
        length (filter (\<lambda>d. selected_stroke prev d = (''#22c55e'', 4)) nodes) \<le> 1
        \<and> length (filter (\<lambda>d. getNodeColor prev d = Hex ''#ffffff'') nodes) \<le> 1"
    unfolding stroke white using selected_id_at_most_once [of nodes prev] by simp
  show ?thesis using one two three styled by simp
qed

theorem C6_selection_witness:
  "Some ''a'' \<noteq> Some ''b''
   \<and> distinct (map node_id [node_a, node_b])
   \<and> length (filter (\<lambda>d. selected_stroke (Some ''a'') d = (''#22c55e'', 4)) [node_a, node_b]) = 1
   \<and> BrainViz_click (ClickNode ''b'') (Some ''a'') = Some ''b''
   \<and> NeuralGraph3D_click (ClickNode ''b'') (Some ''a'', True) = (Some ''b'', False)
   \<and> NeuralGraph3D_click ClickClose (Some ''a'', True) = (None, True)
   \<and> find (\<lambda>n. node_id n = ''b'') [node_a, node_b] = Some node_b
   \<and> NeoGraph_tap [node_a, node_b] (ClickNode ''b'') (Some node_a) = Some node_b
   \<and> find (\<lambda>n. node_id n = ''z'') [node_a, node_b] = None
   \<and> NeoGraph_tap [node_a, node_b] (ClickNode ''z'') (Some node_a) = Some node_a"
  using C6_selection_per_variant
      [of "ClickNode ''b''" "Some ''a''" True "[node_a, node_b]" "Some node_a" "''a''" "''b''" node_b]
    C6_selection_per_variant
      [of "ClickNode ''z''" "Some ''a''" True "[node_a, node_b]" "Some node_a" "''a''" "''z''" node_b]
  by (simp add: node_a_def node_b_def selected_stroke_def)

text \<open>
  C6 as stated fails: with a selected, a click on the empty canvas leaves a selected in
  the SVG and 3D variants, and a tap on a leaves a selected in the cytoscape variant.
\<close>

theorem C6_click_counterexample:
  "BrainViz_click ClickCanvas (Some ''a'') = Some ''a''
   \<and> fst (NeuralGraph3D_click ClickCanvas (Some ''a'', True)) = Some ''a''
   \<and> NeoGraph_tap [node_a, node_b] (ClickNode ''a'') (Some node_a) = Some node_a"
  by (simp add: node_a_def node_b_def)

subsection \<open>Fill colour\<close>

text \<open>
  C7, as the code has it. The fill of a node is a function of attributes of the node,
  not of time. In the SVG variant it is a function of the energy alone: the two-point
  interpolation between \<^verbatim>\<open>#22c55e\<close> and \<^verbatim>\<open>#ef4444\<close> taken at 1 - energy (energy
  0.5 when missing). In the 3D variant the selected node is \<^verbatim>\<open>#ffffff\<close>, and any other
  node has a colour of its depth tier (depth 0, depth 1, deeper) in which one or two
  channels follow a linear function of the energy to within one unit (the code floors
  it) and the others are constant. The canvas variant does the same with its own tiers
  and no selection. In the cytoscape variant a selected node is \<^verbatim>\<open>#3b82f6\<close>, and any
  other node has one of four colours, by the energy against 0.8, 0.5 and 0.3 (energy 1
  when missing).
\<close>

theorem C7_fill_colour_per_variant:
  "BrainViz_fill f n = f ''#22c55e'' ''#ef4444'' (1 - nullish (energy n) 0.5)
   \<and> (energy n = energy n' \<longrightarrow> BrainViz_fill f n = BrainViz_fill f n')
   \<and> (sel = Some (node_id n) \<longrightarrow> getNodeColor sel n = Hex ''#ffffff'')
   \<and> (sel \<noteq> Some (node_id n) \<and> nullish (depth n) 0 = 0 \<longrightarrow>
        (\<exists>r g. getNodeColor sel n = Rgb r g 80
           \<and> \<bar>real_of_int r - (50 + (1 - nullish (energy n) 0.5) * 200)\<bar> \<le> 1
           \<and> \<bar>real_of_int g - (200 + nullish (energy n) 0.5 * 55)\<bar> \<le> 1))
   \<and> (sel \<noteq> Some (node_id n) \<and> nullish (depth n) 0 = 1 \<longrightarrow>
        (\<exists>b. getNodeColor sel n = Rgb 80 150 b
           \<and> \<bar>real_of_int b - (150 + nullish (energy n) 0.5 * 105)\<bar> \<le> 1))
   \<and> (sel \<noteq> Some (node_id n) \<and> nullish (depth n) 0 \<noteq> 0 \<and> nullish (depth n) 0 \<noteq> 1 \<longrightarrow>
        (\<exists>r. getNodeColor sel n = Rgb r 80 200
           \<and> \<bar>real_of_int r - (120 + nullish (energy n) 0.5 * 80)\<bar> \<le> 1))
   \<and> (nullish (depth n) 0 = 0 \<longrightarrow>
        (\<exists>g. nodeColor n = Rgb 34 g 85
           \<and> \<bar>real_of_int g - (150 + nullish (energy n) 0.5 * 105)\<bar> \<le> 1))
   \<and> (nullish (depth n) 0 = 1 \<longrightarrow>
        (\<exists>b. nodeColor n = Rgb 59 130 b
           \<and> \<bar>real_of_int b - (150 + nullish (energy n) 0.5 * 105)\<bar> \<le> 1))
   \<and> (nullish (depth n) 0 \<noteq> 0 \<and> nullish (depth n) 0 \<noteq> 1 \<longrightarrow>
        (\<exists>r. nodeColor n = Rgb r 80 200
           \<and> \<bar>real_of_int r - (100 + nullish (energy n) 0.5 * 55)\<bar> \<le> 1))
   \<and> NeoGraph_background True n = Hex ''#3b82f6''
   \<and> (0.8 < nullish (energy n) 1 \<longrightarrow> NeoGraph_background False n = Hex ''#22c55e'')
   \<and> (0.5 < nullish (energy n) 1 \<and> nullish (energy n) 1 \<le> 0.8 \<longrightarrow>
        NeoGraph_background False n = Hex ''#84cc16'')
   \<and> (0.3 < nullish (energy n) 1 \<and> nullish (energy n) 1 \<le> 0.5 \<longrightarrow>
        NeoGraph_background False n = Hex ''#eab308'')
   \<and> (nullish (energy n) 1 \<le> 0.3 \<longrightarrow> NeoGraph_background False n = Hex ''#f97316'')"
proof -
  have svg: "BrainViz_fill f n = f ''#22c55e'' ''#ef4444'' (1 - nullish (energy n) 0.5)
   \<and> (energy n = energy n' \<longrightarrow> BrainViz_fill f n = BrainViz_fill f n')"
    by (simp add: BrainViz_fill_def energyColor_def)
  let ?e = "nullish (energy n) 0.5"
  have white: "sel = Some (node_id n) \<longrightarrow> getNodeColor sel n = Hex ''#ffffff''"
    by (simp add: getNodeColor_def Let_def)
  have t0: "sel \<noteq> Some (node_id n) \<and> nullish (depth n) 0 = 0 \<longrightarrow>
        (\<exists>r g. getNodeColor sel n = Rgb r g 80
           \<and> \<bar>real_of_int r - (50 + (1 - ?e) * 200)\<bar> \<le> 1
           \<and> \<bar>real_of_int g - (200 + ?e * 55)\<bar> \<le> 1)"
  proof (intro impI)
    assume h: "sel \<noteq> Some (node_id n) \<and> nullish (depth n) 0 = 0"
    then have eq: "getNodeColor sel n = Rgb \<lfloor>50 + (1 - ?e) * 200\<rfloor> \<lfloor>200 + ?e * 55\<rfloor> 80"
      by (simp add: getNodeColor_def Let_def)
    show "\<exists>r g. getNodeColor sel n = Rgb r g 80
           \<and> \<bar>real_of_int r - (50 + (1 - ?e) * 200)\<bar> \<le> 1
           \<and> \<bar>real_of_int g - (200 + ?e * 55)\<bar> \<le> 1"
      by (intro exI conjI, rule eq, rule floor_within_one, rule floor_within_one)
  qed
  have t1: "sel \<noteq> Some (node_id n) \<and> nullish (depth n) 0 = 1 \<longrightarrow>
        (\<exists>b. getNodeColor sel n = Rgb 80 150 b \<and> \<bar>real_of_int b - (150 + ?e * 105)\<bar> \<le> 1)"
  proof (intro impI)
    assume h: "sel \<noteq> Some (node_id n) \<and> nullish (depth n) 0 = 1"
    then have eq: "getNodeColor sel n = Rgb 80 150 \<lfloor>150 + ?e * 105\<rfloor>"
      by (simp add: getNodeColor_def Let_def)
    show "\<exists>b. getNodeColor sel n = Rgb 80 150 b \<and> \<bar>real_of_int b - (150 + ?e * 105)\<bar> \<le> 1"
      by (intro exI conjI, rule eq, rule floor_within_one)
  qed
  have t2: "sel \<noteq> Some (node_id n) \<and> nullish (depth n) 0 \<noteq> 0 \<and> nullish (depth n) 0 \<noteq> 1 \<longrightarrow>
        (\<exists>r. getNodeColor sel n = Rgb r 80 200 \<and> \<bar>real_of_int r - (120 + ?e * 80)\<bar> \<le> 1)"
  proof (intro impI)
    assume h: "sel \<noteq> Some (node_id n) \<and> nullish (depth n) 0 \<noteq> 0 \<and> nullish (depth n) 0 \<noteq> 1"
    then have eq: "getNodeColor sel n = Rgb \<lfloor>120 + ?e * 80\<rfloor> 80 200"
      by (simp add: getNodeColor_def Let_def)
    show "\<exists>r. getNodeColor sel n = Rgb r 80 200 \<and> \<bar>real_of_int r - (120 + ?e * 80)\<bar> \<le> 1"
      by (intro exI conjI, rule eq, rule floor_within_one)
  qed
  have c0: "nullish (depth n) 0 = 0 \<longrightarrow>
        (\<exists>g. nodeColor n = Rgb 34 g 85 \<and> \<bar>real_of_int g - (150 + ?e * 105)\<bar> \<le> 1)"
  proof (intro impI)
    assume h: "nullish (depth n) 0 = 0"
    then have eq: "nodeColor n = Rgb 34 \<lfloor>150 + ?e * 105\<rfloor> 85"
      by (simp add: nodeColor_def Let_def)
    show "\<exists>g. nodeColor n = Rgb 34 g 85 \<and> \<bar>real_of_int g - (150 + ?e * 105)\<bar> \<le> 1"
      by (intro exI conjI, rule eq, rule floor_within_one)
  qed
  have c1: "nullish (depth n) 0 = 1 \<longrightarrow>
        (\<exists>b. nodeColor n = Rgb 59 130 b \<and> \<bar>real_of_int b - (150 + ?e * 105)\<bar> \<le> 1)"
  proof (intro impI)
    assume h: "nullish (depth n) 0 = 1"
    then have eq: "nodeColor n = Rgb 59 130 \<lfloor>150 + ?e * 105\<rfloor>"
      by (simp add: nodeColor_def Let_def)
    show "\<exists>b. nodeColor n = Rgb 59 130 b \<and> \<bar>real_of_int b - (150 + ?e * 105)\<bar> \<le> 1"
      by (intro exI conjI, rule eq, rule floor_within_one)
  qed
  have c2: "nullish (depth n) 0 \<noteq> 0 \<and> nullish (depth n) 0 \<noteq> 1 \<longrightarrow>
        (\<exists>r. nodeColor n = Rgb r 80 200 \<and> \<bar>real_of_int r - (100 + ?e * 55)\<bar> \<le> 1)"
  proof (intro impI)
    assume h: "nullish (depth n) 0 \<noteq> 0 \<and> nullish (depth n) 0 \<noteq> 1"
    then have eq: "nodeColor n = Rgb \<lfloor>100 + ?e * 55\<rfloor> 80 200"
      by (simp add: nodeColor_def Let_def)
    show "\<exists>r. nodeColor n = Rgb r 80 200 \<and> \<bar>real_of_int r - (100 + ?e * 55)\<bar> \<le> 1"
      by (intro exI conjI, rule eq, rule floor_within_one)
  qed
  have cyto: "NeoGraph_background True n = Hex ''#3b82f6''
   \<and> (0.8 < nullish (energy n) 1 \<longrightarrow> NeoGraph_background False n = Hex ''#22c55e'')
   \<and> (0.5 < nullish (energy n) 1 \<and> nullish (energy n) 1 \<le> 0.8 \<longrightarrow>
        NeoGraph_background False n = Hex ''#84cc16'')
   \<and> (0.3 < nullish (energy n) 1 \<and> nullish (energy n) 1 \<le> 0.5 \<longrightarrow>
        NeoGraph_background False n = Hex ''#eab308'')
   \<and> (nullish (energy n) 1 \<le> 0.3 \<longrightarrow> NeoGraph_background False n = Hex ''#f97316'')"
    by (simp add: NeoGraph_background_def Let_def)
  show ?thesis using svg white t0 t1 t2 c0 c1 c2 cyto by blast
qed

theorem C7_fill_colour_witness:
  "energy node_surface = energy node_consolidated
   \<and> BrainViz_fill linear_green_red node_surface = Rgb 137 133 81
   \<and> BrainViz_fill linear_green_red node_consolidated = Rgb 137 133 81
   \<and> BrainViz_fill linear_green_red node_a = Rgb 34 197 94
   \<and> BrainViz_fill linear_green_red node_b = Rgb 239 68 68
   \<and> Some ''s'' = Some (node_id node_surface)
   \<and> getNodeColor (Some ''s'') node_surface = Hex ''#ffffff''
   \<and> None \<noteq> Some (node_id node_surface) \<and> nullish (depth node_surface) 0 = 0
   \<and> getNodeColor None node_surface = Rgb 150 227 80
   \<and> nullish (depth node_consolidated) 0 = 1
   \<and> nodeColor node_consolidated = Rgb 59 130 202
   \<and> 0.3 < nullish (energy node_surface) 1 \<and> nullish (energy node_surface) 1 \<le> 0.5
   \<and> NeoGraph_background False node_surface = Hex ''#eab308''
   \<and> 0.8 < nullish (energy node_a) 1
   \<and> NeoGraph_background False node_a = Hex ''#22c55e''"
  using C7_fill_colour_per_variant [of linear_green_red node_surface node_consolidated "Some ''s''"]
    C7_fill_colour_per_variant [of linear_green_red node_surface node_consolidated None]
    C7_fill_colour_per_variant [of linear_green_red node_consolidated node_consolidated None]
    C7_fill_colour_per_variant [of linear_green_red node_a node_a None]
    C7_fill_colour_per_variant [of linear_green_red node_b node_b None]
  by (simp add: node_surface_def node_consolidated_def node_a_def node_b_def linear_green_red_def
      clampi_def BrainViz_fill_def energyColor_def NeoGraph_background_def getNodeColor_def
      nodeColor_def)

text \<open>
  C7 as stated fails in the 3D and canvas variants: two nodes of energy 0.5 on depth 0
  and depth 1 get different colours. It fails in the 3D and cytoscape variants for the
  selected node as well, whose colour does not depend on its energy.
\<close>

theorem C7_depth_counterexample:
  "energy node_surface = energy node_consolidated
   \<and> getNodeColor None node_surface = Rgb 150 227 80
   \<and> getNodeColor None node_consolidated = Rgb 80 150 202
   \<and> nodeColor node_surface = Rgb 34 202 85
   \<and> nodeColor node_consolidated = Rgb 59 130 202
   \<and> getNodeColor (Some ''s'') node_surface = Hex ''#ffffff''
   \<and> NeoGraph_background True node_surface = Hex ''#3b82f6''
   \<and> NeoGraph_background False node_surface = Hex ''#eab308''"
  by (simp add: node_surface_def node_consolidated_def getNodeColor_def nodeColor_def
      NeoGraph_background_def)


subsection \<open>Pin and unpin\<close>




subsection \<open>Labels of the SVG variant\<close>



subsection \<open>Fixed coordinates of the 3D variant\<close>

text \<open>
  C10. In the 3D variant a supplied coordinate equal to 0 is treated like a missing one:
  for every node and each of the three axes the fixed coordinate (fx, fy, fz) stays
  undefined when the coordinate of that axis is 0 or missing, and is the coordinate
  scaled by 100 when it is not 0. A node with position [0, 1, 2] is fixed on y and z
  and free on x.
\<close>

theorem C10_zero_coordinate_not_fixed:
  "(position_at n i = Some 0 \<longrightarrow> fixed_coord n i = None)
   \<and> (position_at n i = Some v \<and> v \<noteq> 0 \<longrightarrow> fixed_coord n i = Some (v * 100))
   \<and> (position n = Some [0, 1, 2] \<longrightarrow>
        fx3 (graphData_node n) = None
        \<and> fy3 (graphData_node n) = Some 100
        \<and> fz3 (graphData_node n) = Some 200)
   \<and> (position n = Some ps \<and> 0 < length ps \<and> ps ! 0 = 0 \<longrightarrow> fx3 (graphData_node n) = None)
   \<and> (position n = Some ps \<and> 0 < length ps \<and> ps ! 0 \<noteq> 0 \<longrightarrow>
        fx3 (graphData_node n) = Some (ps ! 0 * 100))
   \<and> (position n = None \<or> (position n = Some ps \<and> length ps \<le> 0) \<longrightarrow>
        fx3 (graphData_node n) = None)
   \<and> (position n = Some ps \<and> 1 < length ps \<and> ps ! 1 = 0 \<longrightarrow> fy3 (graphData_node n) = None)
   \<and> (position n = Some ps \<and> 1 < length ps \<and> ps ! 1 \<noteq> 0 \<longrightarrow>
        fy3 (graphData_node n) = Some (ps ! 1 * 100))
   \<and> (position n = None \<or> (position n = Some ps \<and> length ps \<le> 1) \<longrightarrow>
        fy3 (graphData_node n) = None)
   \<and> (position n = Some ps \<and> 2 < length ps \<and> ps ! 2 = 0 \<longrightarrow> fz3 (graphData_node n) = None)
   \<and> (position n = Some ps \<and> 2 < length ps \<and> ps ! 2 \<noteq> 0 \<longrightarrow>
        fz3 (graphData_node n) = Some (ps ! 2 * 100))
   \<and> (position n = None \<or> (position n = Some ps \<and> length ps \<le> 2) \<longrightarrow>
        fz3 (graphData_node n) = None)
   \<and> datum3 (graphData_node n) = n
   \<and> graphData_nodes nodes = map graphData_node nodes"
  by (auto simp: fixed_coord_def graphData_node_def graphData_nodes_def position_at_def)

theorem C10_zero_coordinate_witness:
  "position node_origin = Some [0, 1, 2]
   \<and> fx3 (graphData_node node_origin) = None
   \<and> fy3 (graphData_node node_origin) = Some 100
   \<and> fz3 (graphData_node node_origin) = Some 200
   \<and> position node_swapped = Some [1, 0, 2]
   \<and> fx3 (graphData_node node_swapped) = Some 100
   \<and> fy3 (graphData_node node_swapped) = None
   \<and> fz3 (graphData_node node_swapped) = Some 200
   \<and> position node_b = None
   \<and> fx3 (graphData_node node_b) = None"
  using C10_zero_coordinate_not_fixed [of node_origin 0 1 "[0, 1, 2]"]
    C10_zero_coordinate_not_fixed [of node_swapped 1 1 "[1, 0, 2]"]
    C10_zero_coordinate_not_fixed [of node_b 0 1 "[]"]
  by (simp add: node_origin_def node_swapped_def node_b_def)

end
